theory Spec2Isabelle
  imports Complex_Main
begin

section \<open>JavaScript values and runtime functions\<close>

text \<open>
  A JavaScript number is NaN, an infinity, or a finite value; the finite doubles are
  embedded in the reals. \<open>js_lt\<close> is the operator \<^verbatim>\<open><\<close>: every comparison with NaN
  is false.
\<close>

datatype number = NaN | NegInfinity | Fin real | PosInfinity

fun js_lt :: "number \<Rightarrow> number \<Rightarrow> bool" where
  "js_lt (Fin a) (Fin b) = (a < b)"
| "js_lt NegInfinity (Fin b) = True"
| "js_lt NegInfinity PosInfinity = True"
| "js_lt (Fin a) PosInfinity = True"
| "js_lt _ _ = False"

definition js_gt :: "number \<Rightarrow> number \<Rightarrow> bool" where
  "js_gt a b = js_lt b a"

text \<open>
  A field of an object parsed from JSON may be absent (\<^verbatim>\<open>undefined\<close>): \<open>None\<close>.
  A string is truthy when it is present and not empty.
\<close>

definition truthy :: "string option \<Rightarrow> bool" where
  "truthy s = (case s of None \<Rightarrow> False | Some v \<Rightarrow> v \<noteq> [])"

text \<open>\<^verbatim>\<open>a || b\<close> on optional strings, and with a string literal as the default.\<close>

definition or_else :: "string option \<Rightarrow> string option \<Rightarrow> string option" where
  "or_else a b = (if truthy a then a else b)"

definition or_default :: "string option \<Rightarrow> string \<Rightarrow> string" where
  "or_default a b = (case a of None \<Rightarrow> b | Some v \<Rightarrow> if v = [] then b else v)"

text \<open>
  The functions of the JavaScript runtime that the agent calls are parameters of the
  model: \<^verbatim>\<open>parseFloat\<close>, \<^verbatim>\<open>Number\<close> on a string, the conversion
  of a number to a string in a template literal, \<^verbatim>\<open>toFixed\<close> and
  \<^verbatim>\<open>toLowerCase\<close>. So is the rounding of the exact result of a multiplication or
  a division to the nearest double (an infinity when it overflows), \<open>nearest\<close>.
\<close>

record builtins =
  parseFloat :: "string \<Rightarrow> number"
  Number :: "string \<Rightarrow> number"
  toString :: "number \<Rightarrow> string"
  toFixed :: "number \<Rightarrow> nat \<Rightarrow> string"
  toLowerCase :: "string \<Rightarrow> string"
  nearest :: "real \<Rightarrow> number"

text \<open>
  The operators \<^verbatim>\<open>*\<close> and \<^verbatim>\<open>/\<close> on numbers: the special cases are those of
  IEEE 754 (\<^verbatim>\<open>0 / 0\<close> and \<^verbatim>\<open>0 * Infinity\<close> are NaN, any other division by zero is
  an infinity), and a finite result is rounded by \<open>nearest\<close>. The two zeros are not
  told apart. \<^verbatim>\<open>Math.round\<close> rounds half up and is exact.
\<close>

fun js_mul :: "builtins \<Rightarrow> number \<Rightarrow> number \<Rightarrow> number" where
  "js_mul b (Fin x) (Fin y) = nearest b (x * y)"
| "js_mul b NaN y = NaN"
| "js_mul b x NaN = NaN"
| "js_mul b (Fin x) PosInfinity =
     (if x = 0 then NaN else if 0 < x then PosInfinity else NegInfinity)"
| "js_mul b (Fin x) NegInfinity =
     (if x = 0 then NaN else if 0 < x then NegInfinity else PosInfinity)"
| "js_mul b PosInfinity (Fin y) =
     (if y = 0 then NaN else if 0 < y then PosInfinity else NegInfinity)"
| "js_mul b NegInfinity (Fin y) =
     (if y = 0 then NaN else if 0 < y then NegInfinity else PosInfinity)"
| "js_mul b PosInfinity PosInfinity = PosInfinity"
| "js_mul b NegInfinity NegInfinity = PosInfinity"
| "js_mul b PosInfinity NegInfinity = NegInfinity"
| "js_mul b NegInfinity PosInfinity = NegInfinity"

fun js_div :: "builtins \<Rightarrow> number \<Rightarrow> number \<Rightarrow> number" where
  "js_div b (Fin x) (Fin y) =
     (if y = 0 then (if x = 0 then NaN else if 0 < x then PosInfinity else NegInfinity)
      else nearest b (x / y))"
| "js_div b NaN y = NaN"
| "js_div b x NaN = NaN"
| "js_div b (Fin x) PosInfinity = Fin 0"
| "js_div b (Fin x) NegInfinity = Fin 0"
| "js_div b PosInfinity (Fin y) = (if y < 0 then NegInfinity else PosInfinity)"
| "js_div b NegInfinity (Fin y) = (if y < 0 then PosInfinity else NegInfinity)"
| "js_div b x y = NaN"

fun Math_round :: "number \<Rightarrow> number" where
  "Math_round (Fin x) = Fin (of_int \<lfloor>x + 1 / 2\<rfloor>)"
| "Math_round x = x"

text \<open>
  A small runtime for evaluating examples. It parses a string made of decimal digits only,
  as the JavaScript functions do, and answers NaN for any other string; it prints the few
  numbers the examples print and answers \<^verbatim>\<open>?\<close> for any other number; it leaves the
  case of a string as it is and does not round.
\<close>

definition digit_val :: "char \<Rightarrow> nat option" where
  "digit_val c =
     (let code = (of_char c :: nat)
      in if 48 \<le> code \<and> code \<le> 57 then Some (code - 48) else None)"

fun digits_val :: "nat \<Rightarrow> string \<Rightarrow> nat option" where
  "digits_val acc [] = Some acc"
| "digits_val acc (c # cs) =
     (case digit_val c of None \<Rightarrow> None | Some d \<Rightarrow> digits_val (10 * acc + d) cs)"

definition parse_digits :: "string \<Rightarrow> number" where
  "parse_digits s =
     (if s = [] then NaN
      else case digits_val 0 s of None \<Rightarrow> NaN | Some n \<Rightarrow> Fin (real n))"

definition print_number :: "number \<Rightarrow> string" where
  "print_number x =
     (if x = Fin 150 then ''150'' else if x = Fin 100 then ''100''
      else if x = Fin 50 then ''50'' else if x = Fin 0 then ''0'' else ''?'')"

definition print_fixed :: "number \<Rightarrow> nat \<Rightarrow> string" where
  "print_fixed x n = (if x = Fin 50 \<and> n = 2 then ''50.00'' else ''?'')"

definition example_js :: builtins where
  "example_js = \<lparr> parseFloat = parse_digits, Number = parse_digits,
     toString = print_number, toFixed = print_fixed,
     toLowerCase = (\<lambda>s. s), nearest = Fin \<rparr>"

section \<open>The decision (agent/AIAgent.ts)\<close>

text \<open>
  \<^verbatim>\<open>RebalanceDecision\<close> is cast from \<^verbatim>\<open>JSON.parse\<close> of the model's
  function-call arguments, so any field may be absent, whatever the interface declares.
\<close>

record RebalanceDecision =
  action :: "string option"
  fromChain :: "string option"
  toChain :: "string option"
  token :: "string option"
  amount :: "string option"
  reason :: "string option"
  confidence :: "number option"
  targetProtocol :: "string option"
  expectedAPY :: "number option"
  riskLevel :: "string option"

text \<open>\<^verbatim>\<open>AIAgent.validateRebalanceDecision\<close>: the check of the oracle adapter.\<close>

definition validateRebalanceDecision :: "RebalanceDecision \<Rightarrow> bool" where
  "validateRebalanceDecision d =
     (case confidence d of
        None \<Rightarrow> False
      | Some c \<Rightarrow>
          if \<not> truthy (action d) \<or> \<not> truthy (reason d) then False
          else if js_lt c (Fin 0) \<or> js_gt c (Fin 1) then False
          else if action d = Some ''rebalance'' \<or> action d = Some ''bridge'' then
            (if \<not> truthy (fromChain d) \<or> \<not> truthy (toChain d) \<or> \<not> truthy (token d)
                \<or> \<not> truthy (amount d)
             then False else True)
          else True)"

section \<open>The decision validator (engine/DecisionEngine.ts)\<close>

definition validActions :: "string list" where
  "validActions = [''rebalance'', ''hold'', ''bridge'', ''lend'', ''swap'']"

text \<open>
  \<^verbatim>\<open>DecisionEngine.validateDecision\<close>. An absent confidence compares as NaN, and an
  absent action is not in the list.
\<close>

definition validateDecision :: "builtins \<Rightarrow> RebalanceDecision \<Rightarrow> bool" where
  "validateDecision js d =
     (if (case confidence d of None \<Rightarrow> False | Some c \<Rightarrow> js_lt c (Fin 0.7)) then False
      else if (case action d of None \<Rightarrow> True | Some a \<Rightarrow> a \<notin> set validActions) then False
      else if (case amount d of
                 None \<Rightarrow> False
               | Some a \<Rightarrow> a \<noteq> [] \<and> js_lt (parseFloat js a) (Fin 100)) then False
      else True)"

section \<open>Collaborators of the engine\<close>

text \<open>
  A thrown value is an \<^verbatim>\<open>Error\<close> object with its message or any other value.
  \<open>error_message\<close> is what the catch clause of \<^verbatim>\<open>executeDecision\<close> stores:
  \<^verbatim>\<open>error instanceof Error ? error.message : 'Unknown error'\<close>.
\<close>

datatype thrown = Error string | NonError

fun error_message :: "thrown \<Rightarrow> string" where
  "error_message (Error m) = m"
| "error_message NonError = ''Unknown error''"

record TransactionResult =
  hash :: string
  tx_gasUsed :: string
  gasPrice :: string
  tx_success :: bool
  blockNumber :: nat

record VaultInfo =
  activeStrategies :: "string list"
  vault_supportedTokens :: "string list"

record Portfolio =
  vault :: string
  network :: string
  strategies :: "string list"
  tokenBalances :: "string \<rightharpoonup> string"
  supportedTokens :: "string list"

record Constraints =
  maxGasPrice :: string
  minTransactionValue :: string
  maxSlippage :: string
  allowedNetworks :: "string list"
  allowedProtocols :: "string list"

text \<open>
  What the chain answers to the executor call: the transaction as mined, with the status
  of its receipt, 0 when it reverted and 1 otherwise. \<open>revert_details\<close> is the rest of
  the message of the error that \<^verbatim>\<open>tx.wait()\<close> rejects with for a reverted
  transaction. A receipt without status (before Byzantium) is not modelled.
\<close>

datatype receipt_status = Reverted | Succeeded

fun status_code :: "receipt_status \<Rightarrow> nat" where
  "status_code Reverted = 0"
| "status_code Succeeded = 1"

record MinedTransaction =
  receipt_hash :: string
  receipt_gasUsed :: string
  tx_gasPrice :: string
  status :: receipt_status
  receipt_blockNumber :: nat
  revert_details :: string

text \<open>
  The value of \<^verbatim>\<open>chainMap[key] || 'ethereum'\<close>. \<^verbatim>\<open>chainMap\<close> is a plain object, so
  a key that names a property of \<^verbatim>\<open>Object.prototype\<close> finds the inherited value, a
  function or an object, which is truthy and is returned where a network name is expected.
\<close>

datatype network_ref = Network string | Inherited string

text \<open>The parameter object of \<^verbatim>\<open>BlockchainClient.executeAIDecision\<close>.\<close>

record DecisionPayload =
  p_action :: "string option"
  p_fromChain :: string
  p_toChain :: string
  p_token :: "string option"
  p_amount :: string
  p_reason :: "string option"
  p_targetProtocol :: string
  p_executionData :: string

text \<open>
  The world of one cycle: the configuration, the environment variables, the clock and
  the random suffix read by the identifier generator, the networks that have a signer, and
  what each collaborator answers (\<open>Inl\<close> when the call throws). \<open>executorCall\<close>
  is the contract call \<^verbatim>\<open>executor.executeAIDecision(...)\<close> with its arguments, up to
  the mined transaction. \<open>completion\<close> is the model's function-call
  arguments after \<^verbatim>\<open>JSON.parse\<close>, \<open>None\<close> when the reply carries no function
  call. The market data is an opaque value of type \<open>'m\<close>.
\<close>

record 'm world =
  js :: builtins
  config_vaultAddress :: "string option"
  env_VAULT_ADDRESS :: "string option"
  config_executorAddress :: "string option"
  env_EXECUTOR_ADDRESS :: "string option"
  config_defaultNetwork :: "string option"
  env_MAX_GAS_PRICE :: "string option"
  env_MIN_TRANSACTION_VALUE :: "string option"
  env_MAX_SLIPPAGE :: "string option"
  Date_now :: number
  random_suffix :: string
  analyzeMarketConditions :: "thrown + 'm"
  getVaultInfo :: "string \<Rightarrow> string \<Rightarrow> thrown + VaultInfo"
  getTokenBalance :: "string \<Rightarrow> string \<Rightarrow> string \<Rightarrow> thrown + string"
  completion :: "Portfolio \<Rightarrow> 'm \<Rightarrow> Constraints \<Rightarrow> thrown + RebalanceDecision option"
  signers :: "string \<Rightarrow> bool"
  executorCall :: "string \<Rightarrow> string \<Rightarrow> DecisionPayload \<Rightarrow> thrown + MinedTransaction"

text \<open>The calls made to the collaborators, in the order they are made.\<close>

datatype call =
    AnalyzeMarketConditions
  | GetVaultInfo string string
  | GetTokenBalance string string string
  | GenerateRebalanceDecision
  | ExecuteAIDecision string network_ref DecisionPayload

text \<open>
  \<^verbatim>\<open>AIAgent.generateRebalanceDecision\<close>: the parsed decision is returned only when
  \<^verbatim>\<open>validateRebalanceDecision\<close> accepts it; an error is thrown again.
\<close>

definition generateRebalanceDecision ::
  "'m world \<Rightarrow> Portfolio \<Rightarrow> 'm \<Rightarrow> Constraints \<Rightarrow> thrown + RebalanceDecision option" where
  "generateRebalanceDecision w currentPortfolio marketData constraints =
     (case completion w currentPortfolio marketData constraints of
        Inl e \<Rightarrow> Inl e
      | Inr None \<Rightarrow> Inr None
      | Inr (Some decision) \<Rightarrow>
          if validateRebalanceDecision decision then Inr (Some decision) else Inr None)"

section \<open>The blockchain client (BlockchainClient in agent/AIAgent.ts)\<close>

definition objectPrototypeNames :: "string list" where
  "objectPrototypeNames =
     [''constructor'', ''__proto__'', ''hasOwnProperty'', ''isPrototypeOf'',
      ''propertyIsEnumerable'', ''toLocaleString'', ''toString'', ''valueOf'',
      ''__defineGetter__'', ''__defineSetter__'', ''__lookupGetter__'', ''__lookupSetter__'']"

text \<open>How an inherited value prints in a template literal.\<close>

definition inherited_text :: "string \<Rightarrow> string" where
  "inherited_text k =
     (if k = ''__proto__'' then ''[object Object]''
      else if k = ''constructor'' then ''function Object() { [native code] }''
      else ''function '' @ k @ ''() { [native code] }'')"

text \<open>
  \<^verbatim>\<open>getSigner\<close>: the signer of a configured network, or an error. The table of signers
  has the configured network names as its keys, so the printed form of an inherited value
  finds none.
\<close>

fun getSigner :: "'m world \<Rightarrow> network_ref \<Rightarrow> thrown + string" where
  "getSigner w (Network n) =
     (if signers w n then Inr n
      else Inl (Error (''Signer not configured for network: '' @ n)))"
| "getSigner w (Inherited k) =
     Inl (Error (''Signer not configured for network: '' @ inherited_text k))"

text \<open>
  \<^verbatim>\<open>tx.wait()\<close> of ethers resolves with the receipt, and rejects when the transaction
  reverted (status 0).
\<close>

definition tx_wait :: "MinedTransaction \<Rightarrow> thrown + MinedTransaction" where
  "tx_wait tx =
     (if status_code (status tx) = 0
      then Inl (Error (''transaction execution reverted'' @ revert_details tx))
      else Inr tx)"

text \<open>
  \<^verbatim>\<open>BlockchainClient.executeAIDecision\<close>: every error is logged and thrown again;
  \<open>tx_success\<close> is \<^verbatim>\<open>receipt.status === 1\<close>.
\<close>

definition executeAIDecision ::
  "'m world \<Rightarrow> string \<Rightarrow> network_ref \<Rightarrow> DecisionPayload \<Rightarrow> thrown + TransactionResult" where
  "executeAIDecision w executorAddress net params =
     (case getSigner w net of
        Inl e \<Rightarrow> Inl e
      | Inr n \<Rightarrow>
          (case executorCall w executorAddress n params of
             Inl e \<Rightarrow> Inl e
           | Inr tx \<Rightarrow>
               (case tx_wait tx of
                  Inl e \<Rightarrow> Inl e
                | Inr receipt \<Rightarrow>
                    Inr \<lparr> hash = receipt_hash receipt,
                          tx_gasUsed = receipt_gasUsed receipt,
                          gasPrice = tx_gasPrice tx,
                          tx_success = (status_code (status receipt) = 1),
                          blockNumber = receipt_blockNumber receipt \<rparr>)))"

section \<open>The decision engine (engine/DecisionEngine.ts)\<close>

record ExecutionResult =
  decisionId :: string
  success :: bool
  transactionHash :: "string option"
  error :: "string option"
  gasUsed :: "number option"
  timestamp :: number

record 'm DecisionRecord =
  rec_id :: string
  decision :: RebalanceDecision
  executionResult :: "ExecutionResult option"
  rec_timestamp :: number
  marketContext :: 'm

record 'm DecisionEngine =
  decisionHistory :: "'m DecisionRecord list"
  isExecuting :: bool

text \<open>
  \<^verbatim>\<open>getCurrentPortfolio\<close>: a missing vault address and a failing
  \<^verbatim>\<open>getVaultInfo\<close> throw; a failing balance read is logged and skipped.
\<close>

fun readBalances ::
  "'m world \<Rightarrow> string \<Rightarrow> string \<Rightarrow> string list \<Rightarrow> (string \<rightharpoonup> string) \<Rightarrow> (string \<rightharpoonup> string)" where
  "readBalances w vaultAddress net [] balances = balances"
| "readBalances w vaultAddress net (t # ts) balances =
     (case getTokenBalance w t vaultAddress net of
        Inl e \<Rightarrow> readBalances w vaultAddress net ts balances
      | Inr balance \<Rightarrow> readBalances w vaultAddress net ts (balances(t \<mapsto> balance)))"

definition getCurrentPortfolio :: "'m world \<Rightarrow> (thrown + Portfolio) \<times> call list" where
  "getCurrentPortfolio w =
     (let vaultAddress = or_else (config_vaultAddress w) (env_VAULT_ADDRESS w);
          net = or_default (config_defaultNetwork w) ''ethereum''
      in case vaultAddress of
           None \<Rightarrow> (Inl (Error ''Vault address not configured''), [])
         | Some va \<Rightarrow>
             if va = [] then (Inl (Error ''Vault address not configured''), [])
             else
               (case getVaultInfo w va net of
                  Inl e \<Rightarrow> (Inl e, [GetVaultInfo va net])
                | Inr vaultInfo \<Rightarrow>
                    (Inr \<lparr> vault = va, network = net,
                           strategies = activeStrategies vaultInfo,
                           tokenBalances =
                             readBalances w va net (vault_supportedTokens vaultInfo) Map.empty,
                           supportedTokens = vault_supportedTokens vaultInfo \<rparr>,
                     GetVaultInfo va net
                       # map (\<lambda>t. GetTokenBalance t va net) (vault_supportedTokens vaultInfo))))"

definition getConstraints :: "'m world \<Rightarrow> Constraints" where
  "getConstraints w =
     \<lparr> maxGasPrice = or_default (env_MAX_GAS_PRICE w) ''50'',
       minTransactionValue = or_default (env_MIN_TRANSACTION_VALUE w) ''1000'',
       maxSlippage = or_default (env_MAX_SLIPPAGE w) ''1'',
       allowedNetworks = [''ethereum'', ''polygon'', ''arbitrum'', ''optimism''],
       allowedProtocols = [''aave'', ''compound'', ''uniswap'', ''curve''] \<rparr>"

definition generateDecisionId :: "'m world \<Rightarrow> string" where
  "generateDecisionId w =
     ''decision_'' @ toString (js w) (Date_now w) @ ''_'' @ random_suffix w"

definition getNetworkFromChain :: "builtins \<Rightarrow> string \<Rightarrow> network_ref" where
  "getNetworkFromChain b chain =
     (let c = toLowerCase b chain
      in if c \<in> set [''ethereum'', ''polygon'', ''arbitrum'', ''optimism'', ''bsc'']
         then Network c
         else if c \<in> set objectPrototypeNames then Inherited c
         else Network ''ethereum'')"

text \<open>The parameter object that \<^verbatim>\<open>executeDecision\<close> builds for the client.\<close>

definition payload_of :: "RebalanceDecision \<Rightarrow> DecisionPayload" where
  "payload_of d =
     \<lparr> p_action = action d,
       p_fromChain = or_default (fromChain d) ''ethereum'',
       p_toChain = or_default (toChain d) ''ethereum'',
       p_token = token d,
       p_amount = or_default (amount d) ''0'',
       p_reason = reason d,
       p_targetProtocol = or_default (targetProtocol d) [],
       p_executionData = ''0x'' \<rparr>"

text \<open>
  \<^verbatim>\<open>executeDecision\<close> never throws: the missing executor address and a failing
  submission are caught and become a failed result.
\<close>

definition failedResult :: "'m world \<Rightarrow> thrown \<Rightarrow> ExecutionResult" where
  "failedResult w e =
     \<lparr> decisionId = generateDecisionId w, success = False, transactionHash = None,
       error = Some (error_message e), gasUsed = None, timestamp = Date_now w \<rparr>"

definition executeDecision ::
  "'m world \<Rightarrow> RebalanceDecision \<Rightarrow> 'm \<Rightarrow> ExecutionResult \<times> call list" where
  "executeDecision w d marketCtx =
     (if action d = Some ''hold'' then
        (\<lparr> decisionId = generateDecisionId w, success = True, transactionHash = None,
            error = None, gasUsed = None, timestamp = Date_now w \<rparr>, [])
      else
        let net = getNetworkFromChain (js w) (or_default (fromChain d) ''ethereum'');
            executorAddress = or_else (config_executorAddress w) (env_EXECUTOR_ADDRESS w)
        in case executorAddress of
             None \<Rightarrow> (failedResult w (Error ''Executor address not configured''), [])
           | Some ea \<Rightarrow>
               if ea = [] then (failedResult w (Error ''Executor address not configured''), [])
               else
                 let payload = payload_of d
                 in (case executeAIDecision w ea net payload of
                       Inl e \<Rightarrow> (failedResult w e, [ExecuteAIDecision ea net payload])
                     | Inr txResult \<Rightarrow>
                         (\<lparr> decisionId = generateDecisionId w,
                             success = tx_success txResult,
                             transactionHash = Some (hash txResult),
                             error = None,
                             gasUsed = Some (Number (js w) (tx_gasUsed txResult)),
                             timestamp = Date_now w \<rparr>,
                          [ExecuteAIDecision ea net payload])))"

text \<open>
  \<^verbatim>\<open>Array.prototype.slice(start)\<close> with an integer argument: a negative start
  counts from the end, and both are clamped to the array.
\<close>

definition slice :: "int \<Rightarrow> 'a list \<Rightarrow> 'a list" where
  "slice start xs =
     (let len = int (length xs);
          k = (if start < 0 then max (len + start) 0 else min start len)
      in drop (nat k) xs)"

definition newRecord :: "RebalanceDecision \<Rightarrow> 'm \<Rightarrow> ExecutionResult \<Rightarrow> 'm DecisionRecord" where
  "newRecord d marketCtx res =
     \<lparr> rec_id = decisionId res, decision = d, executionResult = Some res,
       rec_timestamp = timestamp res, marketContext = marketCtx \<rparr>"

definition recordDecision ::
  "'m DecisionEngine \<Rightarrow> RebalanceDecision \<Rightarrow> 'm \<Rightarrow> ExecutionResult \<Rightarrow> 'm DecisionEngine" where
  "recordDecision s d marketCtx res =
     (let pushed = decisionHistory s @ [newRecord d marketCtx res]
      in s\<lparr> decisionHistory := (if length pushed > 1000 then slice (- 1000) pushed else pushed) \<rparr>)"

text \<open>
  The body of the \<^verbatim>\<open>try\<close> block of \<^verbatim>\<open>evaluateAndExecute\<close>: the value returned
  (\<open>None\<close> is \<^verbatim>\<open>null\<close>) or the error thrown, the engine afterwards and the calls made.
\<close>

definition cycle ::
  "'m world \<Rightarrow> 'm DecisionEngine \<Rightarrow> (thrown + ExecutionResult option) \<times> 'm DecisionEngine \<times> call list" where
  "cycle w s =
     (case analyzeMarketConditions w of
        Inl e \<Rightarrow> (Inl e, s, [AnalyzeMarketConditions])
      | Inr marketData \<Rightarrow>
          (case getCurrentPortfolio w of
             (Inl e, cs) \<Rightarrow> (Inl e, s, AnalyzeMarketConditions # cs)
           | (Inr portfolio, cs) \<Rightarrow>
               (case generateRebalanceDecision w portfolio marketData (getConstraints w) of
                  Inl e \<Rightarrow> (Inl e, s, AnalyzeMarketConditions # cs @ [GenerateRebalanceDecision])
                | Inr None \<Rightarrow>
                    (Inr None, s, AnalyzeMarketConditions # cs @ [GenerateRebalanceDecision])
                | Inr (Some d) \<Rightarrow>
                    if \<not> validateDecision (js w) d then
                      (Inr None, s, AnalyzeMarketConditions # cs @ [GenerateRebalanceDecision])
                    else
                      (case executeDecision w d marketData of
                         (res, cs') \<Rightarrow>
                           (Inr (Some res), recordDecision s d marketData res,
                            AnalyzeMarketConditions # cs @ [GenerateRebalanceDecision] @ cs')))))"

text \<open>
  \<^verbatim>\<open>evaluateAndExecute\<close>: the guard returns before the \<^verbatim>\<open>try\<close> statement; the
  \<^verbatim>\<open>catch\<close> clause throws the error again and the \<^verbatim>\<open>finally\<close> clause clears the
  flag. During the awaits of the cycle the engine is \<open>s\<lparr>isExecuting := True\<rparr>\<close>.
\<close>

definition evaluateAndExecute ::
  "'m world \<Rightarrow> 'm DecisionEngine \<Rightarrow> (thrown + ExecutionResult option) \<times> 'm DecisionEngine \<times> call list" where
  "evaluateAndExecute w s =
     (if isExecuting s then (Inr None, s, [])
      else case cycle w (s\<lparr> isExecuting := True \<rparr>) of
             (r, s', cs) \<Rightarrow> (r, s'\<lparr> isExecuting := False \<rparr>, cs))"

text \<open>\<^verbatim>\<open>getDecisionHistory(limit)\<close>: \<^verbatim>\<open>slice(-limit).reverse()\<close> on a copy.\<close>

definition getDecisionHistory :: "int \<Rightarrow> 'm DecisionEngine \<Rightarrow> 'm DecisionRecord list" where
  "getDecisionHistory limit s = rev (slice (- limit) (decisionHistory s))"

record Stats =
  totalDecisions :: nat
  successfulDecisions :: nat
  successRate :: number
  actionCounts :: "string \<rightharpoonup> nat"
  stats_isExecuting :: bool

text \<open>An absent action is the property key \<^verbatim>\<open>undefined\<close>.\<close>

definition countAction :: "(string \<rightharpoonup> nat) \<Rightarrow> 'm DecisionRecord \<Rightarrow> (string \<rightharpoonup> nat)" where
  "countAction counts r =
     (let a = (case action (decision r) of None \<Rightarrow> ''undefined'' | Some v \<Rightarrow> v)
      in counts(a \<mapsto> (case counts a of None \<Rightarrow> 0 | Some c \<Rightarrow> c) + 1))"

definition getStats :: "builtins \<Rightarrow> 'm DecisionEngine \<Rightarrow> Stats" where
  "getStats b s =
     (let total = length (decisionHistory s);
          successful = length (filter
            (\<lambda>d. case executionResult d of None \<Rightarrow> False | Some r \<Rightarrow> success r)
            (decisionHistory s));
          rate = (if total > 0
                  then js_mul b (js_div b (Fin (real successful)) (Fin (real total))) (Fin 100)
                  else Fin 0)
      in \<lparr> totalDecisions = total,
           successfulDecisions = successful,
           successRate = js_div b (Math_round (js_mul b rate (Fin 100))) (Fin 100),
           actionCounts = foldl countAction Map.empty (decisionHistory s),
           stats_isExecuting = isExecuting s \<rparr>)"

text \<open>
  A call of \<^verbatim>\<open>evaluateAndExecute\<close> ends with outcome \<open>r\<close> and without a record: the
  ledger and the total of its statistics are as before and the flag is clear.
\<close>

definition ends_without_record ::
  "'m world \<Rightarrow> 'm DecisionEngine \<Rightarrow> thrown + ExecutionResult option \<Rightarrow> bool" where
  "ends_without_record w s r =
     (fst (evaluateAndExecute w s) = r \<and>
      decisionHistory (fst (snd (evaluateAndExecute w s))) = decisionHistory s \<and>
      totalDecisions (getStats (js w) (fst (snd (evaluateAndExecute w s))))
        = totalDecisions (getStats (js w) s) \<and>
      \<not> isExecuting (fst (snd (evaluateAndExecute w s))))"

section \<open>The risk gate (monitoring/StrategyMonitor.ts)\<close>

text \<open>
  The market data cache is an object of objects, read in insertion order by
  \<^verbatim>\<open>Object.entries\<close>. Of a cached entry the checks read \<^verbatim>\<open>priceChange24h\<close> only.
\<close>

record CachedData =
  priceChange24h :: "number option"

type_synonym marketDataCache = "(string \<times> (string \<times> CachedData) list) list"

text \<open>A number is truthy unless it is absent, zero or NaN.\<close>

fun truthy_number :: "number option \<Rightarrow> bool" where
  "truthy_number None = False"
| "truthy_number (Some NaN) = False"
| "truthy_number (Some (Fin x)) = (x \<noteq> 0)"
| "truthy_number (Some _) = True"

fun Math_abs :: "number \<Rightarrow> number" where
  "Math_abs (Fin x) = Fin \<bar>x\<bar>"
| "Math_abs NaN = NaN"
| "Math_abs _ = PosInfinity"

fun times100 :: "number \<Rightarrow> number" where
  "times100 (Fin x) = Fin (x * 100)"
| "times100 n = n"

definition maxVolatility :: number where
  "maxVolatility = Fin 0.1"

text \<open>
  \<^verbatim>\<open>checkMarketVolatility\<close>: the first token whose 24-hour price change exceeds the
  threshold ends both loops. The result is \<^verbatim>\<open>passed\<close> and the optional reason.
\<close>

fun volatileToken :: "builtins \<Rightarrow> string \<Rightarrow> (string \<times> CachedData) list \<Rightarrow> string option" where
  "volatileToken b chain [] = None"
| "volatileToken b chain ((tok, entry) # rest) =
     (case priceChange24h entry of
        None \<Rightarrow> volatileToken b chain rest
      | Some x \<Rightarrow>
          if truthy_number (Some x) \<and> js_gt (Math_abs x) maxVolatility
          then Some (tok @ '' on '' @ chain @ '' has high volatility: ''
                       @ toFixed b (times100 x) 2 @ ''%'')
          else volatileToken b chain rest)"

fun checkMarketVolatility :: "builtins \<Rightarrow> marketDataCache \<Rightarrow> bool \<times> string option" where
  "checkMarketVolatility b [] = (True, None)"
| "checkMarketVolatility b ((chain, tokens) # rest) =
     (case volatileToken b chain tokens of
        Some r \<Rightarrow> (False, Some r)
      | None \<Rightarrow> checkMarketVolatility b rest)"

text \<open>\<^verbatim>\<open>checkPortfolioConcentration\<close> always passes.\<close>

definition checkPortfolioConcentration :: "bool \<times> string option" where
  "checkPortfolioConcentration = (True, None)"

text \<open>
  What the monitor reads: the runtime, \<^verbatim>\<open>process.env.MAX_GAS_PRICE\<close>, the answer of
  \<^verbatim>\<open>getGasPrice\<close> for each chain, and the cache.
\<close>

record monitor =
  m_js :: builtins
  m_MAX_GAS_PRICE :: "string option"
  getGasPrice :: "string \<Rightarrow> thrown + number"
  marketDataCache :: marketDataCache

text \<open>An absent reason prints as \<^verbatim>\<open>undefined\<close> in a template literal.\<close>

definition print_reason :: "string option \<Rightarrow> string" where
  "print_reason r = (case r of None \<Rightarrow> ''undefined'' | Some v \<Rightarrow> v)"

definition gasReasons :: "builtins \<Rightarrow> number \<Rightarrow> number list \<Rightarrow> string list" where
  "gasReasons b gasLimit currentGasPrices =
     map (\<lambda>gasPrice. ''Gas price too high: '' @ toString b gasPrice @ '' gwei'')
       (filter (\<lambda>gasPrice. js_gt gasPrice gasLimit) currentGasPrices)"

definition volatilityReasons :: "bool \<times> string option \<Rightarrow> string list" where
  "volatilityReasons volatilityCheck =
     (if \<not> fst volatilityCheck
      then [''High market volatility detected: '' @ print_reason (snd volatilityCheck)]
      else [])"

definition concentrationReasons :: "bool \<times> string option \<Rightarrow> string list" where
  "concentrationReasons concentrationCheck =
     (if \<not> fst concentrationCheck
      then [''Portfolio concentration risk: '' @ print_reason (snd concentrationCheck)]
      else [])"

text \<open>
  \<^verbatim>\<open>performRiskChecks\<close>: \<^verbatim>\<open>Promise.all\<close> rejects when either gas price read
  throws, and the catch clause then answers with the system error alone.
\<close>

definition performRiskChecks :: "monitor \<Rightarrow> bool \<times> string list" where
  "performRiskChecks mo =
     (let gasLimit = parseFloat (m_js mo) (or_default (m_MAX_GAS_PRICE mo) ''100'')
      in case (getGasPrice mo ''ethereum'', getGasPrice mo ''polygon'') of
           (Inr g1, Inr g2) \<Rightarrow>
             (let reasons = gasReasons (m_js mo) gasLimit [g1, g2]
                    @ volatilityReasons (checkMarketVolatility (m_js mo) (marketDataCache mo))
                    @ concentrationReasons checkPortfolioConcentration
              in (reasons = [], reasons))
         | _ \<Rightarrow> (False, [''Risk check system error'']))"

section \<open>Example values\<close>

definition hold_decision :: RebalanceDecision where
  "hold_decision = \<lparr> action = Some ''hold'', fromChain = None, toChain = None, token = None,
     amount = None, reason = Some ''no better yield'', confidence = Some (Fin 0.9),
     targetProtocol = None, expectedAPY = None, riskLevel = None \<rparr>"

definition rebalance_decision :: RebalanceDecision where
  "rebalance_decision = \<lparr> action = Some ''rebalance'', fromChain = Some ''ethereum'',
     toChain = Some ''polygon'', token = Some ''USDC'', amount = Some ''500'',
     reason = Some ''higher yield'', confidence = Some (Fin 0.9),
     targetProtocol = Some ''aave'', expectedAPY = None, riskLevel = Some ''low'' \<rparr>"

definition hold_small :: RebalanceDecision where
  "hold_small = hold_decision\<lparr> amount := Some ''50'' \<rparr>"

definition rebalance_small :: RebalanceDecision where
  "rebalance_small = rebalance_decision\<lparr> amount := Some ''50'' \<rparr>"

definition rebalance_no_token :: RebalanceDecision where
  "rebalance_no_token = rebalance_decision\<lparr> token := None \<rparr>"

definition rebalance_unsure :: RebalanceDecision where
  "rebalance_unsure = rebalance_decision\<lparr> confidence := Some (Fin 0.5) \<rparr>"

definition example_tx :: MinedTransaction where
  "example_tx = \<lparr> receipt_hash = ''0xabc'', receipt_gasUsed = ''100'', tx_gasPrice = ''50'',
     status = Succeeded, receipt_blockNumber = 1, revert_details = [] \<rparr>"

text \<open>
  A world in which every read succeeds and every network has a signer, with the given
  answers of the oracle and of the executor call.
\<close>

definition world_of ::
  "thrown + RebalanceDecision option \<Rightarrow> thrown + MinedTransaction \<Rightarrow> string world" where
  "world_of answer submitted = \<lparr> js = example_js,
     config_vaultAddress = Some ''0xVault'', env_VAULT_ADDRESS = None,
     config_executorAddress = Some ''0xExecutor'', env_EXECUTOR_ADDRESS = None,
     config_defaultNetwork = None, env_MAX_GAS_PRICE = None,
     env_MIN_TRANSACTION_VALUE = None, env_MAX_SLIPPAGE = None,
     Date_now = Fin 0, random_suffix = ''k3x9'',
     analyzeMarketConditions = Inr ''{}'',
     getVaultInfo = (\<lambda>a n. Inr \<lparr> activeStrategies = [], vault_supportedTokens = [''USDC''] \<rparr>),
     getTokenBalance = (\<lambda>t a n. Inr ''1000''),
     completion = (\<lambda>p m c. answer),
     signers = (\<lambda>n. True),
     executorCall = (\<lambda>a n p. submitted) \<rparr>"

definition example_portfolio :: Portfolio where
  "example_portfolio = \<lparr> vault = ''0xVault'', network = ''ethereum'', strategies = [],
     tokenBalances = [''USDC'' \<mapsto> ''1000''], supportedTokens = [''USDC''] \<rparr>"

definition example_reads :: "call list" where
  "example_reads =
     [GetVaultInfo ''0xVault'' ''ethereum'', GetTokenBalance ''USDC'' ''0xVault'' ''ethereum'']"


definition reverted_world :: "string world" where
  "reverted_world =
     world_of (Inr (Some rebalance_decision)) (Inr (example_tx\<lparr> status := Reverted \<rparr>))"

definition hold_world :: "string world" where
  "hold_world = world_of (Inr (Some hold_decision)) (Inr example_tx)"

definition idle_engine :: "string DecisionEngine" where
  "idle_engine = \<lparr> decisionHistory = [], isExecuting = False \<rparr>"

definition busy_engine :: "string DecisionEngine" where
  "busy_engine = idle_engine\<lparr> isExecuting := True \<rparr>"

definition held :: ExecutionResult where
  "held = \<lparr> decisionId = ''decision_0_k3x9'', success = True, transactionHash = None,
     error = None, gasUsed = None, timestamp = Fin 0 \<rparr>"

definition numbered_record :: "nat \<Rightarrow> string DecisionRecord" where
  "numbered_record i = (newRecord hold_decision ''{}'' held)\<lparr> rec_id := replicate i CHR ''x'' \<rparr>"

definition numbered_engine :: "string DecisionEngine" where
  "numbered_engine = \<lparr> decisionHistory = map numbered_record [0..<1000], isExecuting = False \<rparr>"

definition new_result :: ExecutionResult where
  "new_result = held\<lparr> decisionId := replicate 1000 CHR ''x'' \<rparr>"

definition example_monitor ::
  "thrown + number \<Rightarrow> thrown + number \<Rightarrow> marketDataCache \<Rightarrow> monitor" where
  "example_monitor g1 g2 cache =
     \<lparr> m_js = example_js, m_MAX_GAS_PRICE = None,
       getGasPrice = (\<lambda>chain. if chain = ''ethereum'' then g1 else g2),
       marketDataCache = cache \<rparr>"

definition volatile_cache :: marketDataCache where
  "volatile_cache =
     [(''ethereum'', [(''USDC'', \<lparr> priceChange24h = None \<rparr>),
                      (''WETH'', \<lparr> priceChange24h = Some (Fin 0.5) \<rparr>)])]"

section \<open>Properties\<close>

subsection \<open>Numbers, arrays and the ledger\<close>

lemma idle_reset: "\<not> isExecuting t \<Longrightarrow> t\<lparr>isExecuting := False\<rparr> = t"
  by simp

lemma slice_neg: "0 < n \<Longrightarrow> slice (- int n) xs = drop (length xs - n) xs"
  by (auto simp: slice_def Let_def max_def nat_diff_distrib')

lemma unguarded_rate_is_NaN:
  "js_mul b (js_div b (Fin (real (0::nat))) (Fin (real (0::nat)))) (Fin 100) = NaN \<and>
   js_div b (Math_round (js_mul b NaN (Fin 100))) (Fin 100) = NaN"
  by simp

lemma slice_zero: "slice 0 xs = xs"
  by (simp add: slice_def)

lemma recordDecision_history:
  "decisionHistory (recordDecision s d m res) =
     drop (Suc (length (decisionHistory s)) - 1000) (decisionHistory s @ [newRecord d m res])"
  using slice_neg [of 1000 "decisionHistory s @ [newRecord d m res]"]
  by (simp add: recordDecision_def Let_def)

lemma recordDecision_isExecuting: "isExecuting (recordDecision s d m res) = isExecuting s"
  by (simp add: recordDecision_def Let_def)

lemma recordDecision_flag_commute:
  "recordDecision (s\<lparr>isExecuting := b\<rparr>) d m res = (recordDecision s d m res)\<lparr>isExecuting := b\<rparr>"
  by (simp add: recordDecision_def Let_def)

lemma getStats_total: "totalDecisions (getStats b s) = length (decisionHistory s)"
  by (simp add: getStats_def Let_def)


lemma recordDecision_last:
  "last (decisionHistory (recordDecision s d m res)) = newRecord d m res"
  by (simp add: recordDecision_history)

lemma recordDecision_bounded: "length (decisionHistory (recordDecision s d m res)) \<le> 1000"
  by (simp add: recordDecision_history)

lemma getDecisionHistory_positive:
  "0 < n \<Longrightarrow> getDecisionHistory (int n) s = take n (rev (decisionHistory s))"
  by (simp add: getDecisionHistory_def slice_neg take_rev)

lemma getDecisionHistory_zero: "getDecisionHistory 0 s = rev (decisionHistory s)"
  by (simp add: getDecisionHistory_def slice_zero)

subsection \<open>The cycle\<close>

lemma cycle_isExecuting: "isExecuting (fst (snd (cycle w s))) = isExecuting s"
  by (simp add: cycle_def recordDecision_isExecuting split: sum.splits prod.splits option.splits)

lemma cycle_reaches_execution:
  assumes "analyzeMarketConditions w = Inr m" "getCurrentPortfolio w = (Inr p, cs)"
    "generateRebalanceDecision w p m (getConstraints w) = Inr (Some d)"
    "validateDecision (js w) d"
  shows "cycle w s = (Inr (Some (fst (executeDecision w d m))),
           recordDecision s d m (fst (executeDecision w d m)),
           AnalyzeMarketConditions # cs @ [GenerateRebalanceDecision] @ snd (executeDecision w d m))"
  using assms by (simp add: cycle_def split: prod.splits)

lemma evaluateAndExecute_reaches_execution:
  assumes "\<not> isExecuting s" "analyzeMarketConditions w = Inr m"
    "getCurrentPortfolio w = (Inr p, cs)"
    "generateRebalanceDecision w p m (getConstraints w) = Inr (Some d)"
    "validateDecision (js w) d"
  shows "evaluateAndExecute w s = (Inr (Some (fst (executeDecision w d m))),
           recordDecision s d m (fst (executeDecision w d m)),
           AnalyzeMarketConditions # cs @ [GenerateRebalanceDecision] @ snd (executeDecision w d m))"
  using assms(1) cycle_reaches_execution [OF assms(2-5), of "s\<lparr>isExecuting := True\<rparr>"]
  by (simp add: evaluateAndExecute_def recordDecision_flag_commute recordDecision_isExecuting
      idle_reset)

lemma executeDecision_throws:
  assumes "action d \<noteq> Some ''hold''"
    "or_else (config_executorAddress w) (env_EXECUTOR_ADDRESS w) = Some ea" "ea \<noteq> []"
    "executeAIDecision w ea
       (getNetworkFromChain (js w) (or_default (fromChain d) ''ethereum'')) (payload_of d) = Inl e"
  shows "fst (executeDecision w d m) = failedResult w e"
  using assms by (simp add: executeDecision_def Let_def)

lemma executeDecision_returns:
  assumes "action d \<noteq> Some ''hold''"
    "or_else (config_executorAddress w) (env_EXECUTOR_ADDRESS w) = Some ea" "ea \<noteq> []"
    "executeAIDecision w ea
       (getNetworkFromChain (js w) (or_default (fromChain d) ''ethereum'')) (payload_of d) = Inr tx"
  shows "fst (executeDecision w d m) =
     \<lparr> decisionId = generateDecisionId w, success = tx_success tx,
       transactionHash = Some (hash tx), error = None,
       gasUsed = Some (Number (js w) (tx_gasUsed tx)), timestamp = Date_now w \<rparr>"
  using assms by (simp add: executeDecision_def Let_def)

lemma status_code_positive: "0 < status_code st \<Longrightarrow> status_code st = Suc 0"
  by (cases st) simp_all

lemma executeAIDecision_success:
  "executeAIDecision w ea net pl = Inr tx \<Longrightarrow> tx_success tx"
  by (auto simp: executeAIDecision_def tx_wait_def status_code_positive
      split: sum.splits if_splits)

lemma client_errors_have_messages:
  "(getSigner w net = Inl e \<longrightarrow> error_message e \<noteq> []) \<and>
   (tx_wait tx = Inl e \<longrightarrow> error_message e \<noteq> [])"
  by (cases net) (auto simp: tx_wait_def split: if_splits)


subsection \<open>The example values\<close>

lemma parse_digits_50: "parse_digits ''50'' = Fin 50"
  by (simp add: parse_digits_def digit_val_def)

lemma parse_digits_100: "parse_digits ''100'' = Fin 100"
  by (simp add: parse_digits_def digit_val_def)



lemma hold_decision_valid:
  "validateRebalanceDecision hold_decision \<and> validateDecision example_js hold_decision"
  by (simp add: validateRebalanceDecision_def validateDecision_def hold_decision_def
      truthy_def js_gt_def validActions_def)

lemma rebalance_unsure_rejected:
  "validateRebalanceDecision rebalance_unsure \<and> \<not> validateDecision example_js rebalance_unsure"
  by (simp add: validateRebalanceDecision_def validateDecision_def rebalance_decision_def
      rebalance_unsure_def truthy_def js_gt_def)

lemma world_of_fields:
  "js (world_of answer submitted) = example_js \<and>
   analyzeMarketConditions (world_of answer submitted) = Inr ''{}'' \<and>
   Date_now (world_of answer submitted) = Fin 0 \<and>
   generateDecisionId (world_of answer submitted) = ''decision_0_k3x9'' \<and>
   or_else (config_executorAddress (world_of answer submitted))
     (env_EXECUTOR_ADDRESS (world_of answer submitted)) = Some ''0xExecutor'' \<and>
   (\<forall>ea n pl. executorCall (world_of answer submitted) ea n pl = submitted) \<and>
   (\<forall>n. signers (world_of answer submitted) n)"
  by (simp add: world_of_def generateDecisionId_def example_js_def print_number_def or_else_def
      truthy_def)

lemma rebalance_decision_network:
  "getNetworkFromChain example_js (or_default (fromChain rebalance_decision) ''ethereum'')
     = Network ''ethereum''"
  by (simp add: getNetworkFromChain_def example_js_def rebalance_decision_def or_default_def)

lemma world_of_submission:
  "executeAIDecision (world_of answer submitted) ea (Network n) pl =
     (case submitted of
        Inl e \<Rightarrow> Inl e
      | Inr tx \<Rightarrow>
          (case tx_wait tx of
             Inl e \<Rightarrow> Inl e
           | Inr receipt \<Rightarrow>
               Inr \<lparr> hash = receipt_hash receipt, tx_gasUsed = receipt_gasUsed receipt,
                     gasPrice = tx_gasPrice tx,
                     tx_success = (status_code (status receipt) = 1),
                     blockNumber = receipt_blockNumber receipt \<rparr>))"
  by (simp add: executeAIDecision_def world_of_fields)


lemma world_of_portfolio:
  "getCurrentPortfolio (world_of answer submitted) = (Inr example_portfolio, example_reads)"
  by (simp add: getCurrentPortfolio_def world_of_def or_else_def or_default_def truthy_def
      example_portfolio_def example_reads_def Let_def)

lemma world_of_oracle:
  "generateRebalanceDecision (world_of answer submitted) p m c =
     (case answer of
        Inl e \<Rightarrow> Inl e
      | Inr None \<Rightarrow> Inr None
      | Inr (Some d) \<Rightarrow> if validateRebalanceDecision d then Inr (Some d) else Inr None)"
  by (simp add: generateRebalanceDecision_def world_of_def)


lemma numbered_ids: "map rec_id (map numbered_record xs) = map (\<lambda>i. replicate i CHR ''x'') xs"
  by (simp add: numbered_record_def)

lemma numbered_length: "length (decisionHistory numbered_engine) = 1000"
  by (simp add: numbered_engine_def)

lemma numbered_distinct: "distinct (map rec_id (decisionHistory numbered_engine))"
  by (simp add: numbered_engine_def numbered_ids distinct_map inj_on_def del: map_map)

lemma numbered_fresh: "decisionId new_result \<notin> rec_id ` set (decisionHistory numbered_engine)"
  by (auto simp: numbered_engine_def new_result_def numbered_record_def
      dest!: arg_cong [where f = length])

lemma numbered_hd: "hd (decisionHistory numbered_engine) = numbered_record 0"
  by (simp add: numbered_engine_def hd_map)

section \<open>The claims\<close>

text \<open>
  C1. When the in-flight flag is set, \<^verbatim>\<open>evaluateAndExecute\<close> returns null at once:
  the engine is unchanged and no collaborator is called. This is what a second invocation
  meets while the first one waits, since the first leaves the engine as
  \<open>s\<lparr>isExecuting := True\<rparr>\<close>. When the flag is clear the cycle runs, and however it ends
  (a result, null or a thrown error) the flag is clear afterwards.
\<close>

theorem evaluateAndExecute_single_flight:
  "(isExecuting s \<longrightarrow> evaluateAndExecute w s = (Inr None, s, [])) \<and>
   evaluateAndExecute w' (s\<lparr>isExecuting := True\<rparr>) = (Inr None, s\<lparr>isExecuting := True\<rparr>, []) \<and>
   (\<not> isExecuting s \<longrightarrow> \<not> isExecuting (fst (snd (evaluateAndExecute w s))))"
  by (simp add: evaluateAndExecute_def split: prod.splits)

theorem evaluateAndExecute_single_flight_witness:
  "isExecuting busy_engine \<and>
   evaluateAndExecute hold_world busy_engine = (Inr None, busy_engine, []) \<and>
   \<not> isExecuting idle_engine \<and>
   \<not> isExecuting (fst (snd (evaluateAndExecute hold_world idle_engine)))"
  using evaluateAndExecute_single_flight [of busy_engine hold_world hold_world]
    evaluateAndExecute_single_flight [of idle_engine hold_world hold_world]
  by (simp add: busy_engine_def idle_engine_def)




text \<open>
  C3. A cycle that ends before the submission step ends without a record: when the market
  analysis, the portfolio read or the oracle throws, the error reaches the caller; when the
  oracle has no decision or the validator rejects it, the cycle returns null. In each case
  the ledger and its size are unchanged and the flag is clear.
\<close>

theorem evaluateAndExecute_no_record_before_submission:
  assumes "\<not> isExecuting s"
  shows
   "(analyzeMarketConditions w = Inl e \<longrightarrow> ends_without_record w s (Inl e)) \<and>
    (analyzeMarketConditions w = Inr m \<and> fst (getCurrentPortfolio w) = Inl e \<longrightarrow>
       ends_without_record w s (Inl e)) \<and>
    (analyzeMarketConditions w = Inr m \<and> fst (getCurrentPortfolio w) = Inr p \<and>
     generateRebalanceDecision w p m (getConstraints w) = Inl e \<longrightarrow>
       ends_without_record w s (Inl e)) \<and>
    (analyzeMarketConditions w = Inr m \<and> fst (getCurrentPortfolio w) = Inr p \<and>
     generateRebalanceDecision w p m (getConstraints w) = Inr None \<longrightarrow>
       ends_without_record w s (Inr None)) \<and>
    (analyzeMarketConditions w = Inr m \<and> fst (getCurrentPortfolio w) = Inr p \<and>
     generateRebalanceDecision w p m (getConstraints w) = Inr (Some d) \<and>
     \<not> validateDecision (js w) d \<longrightarrow>
       ends_without_record w s (Inr None))"
  using assms
  by (auto simp: ends_without_record_def evaluateAndExecute_def cycle_def getStats_total
      split: prod.splits)

theorem evaluateAndExecute_no_record_before_submission_witness:
  "\<not> isExecuting idle_engine \<and>
   ends_without_record
     ((world_of (Inr None) (Inr example_tx))\<lparr> analyzeMarketConditions := Inl (Error ''timeout'') \<rparr>)
     idle_engine (Inl (Error ''timeout'')) \<and>
   ends_without_record
     ((world_of (Inr None) (Inr example_tx))\<lparr> config_vaultAddress := None \<rparr>)
     idle_engine (Inl (Error ''Vault address not configured'')) \<and>
   ends_without_record (world_of (Inl (Error ''rate limit'')) (Inr example_tx))
     idle_engine (Inl (Error ''rate limit'')) \<and>
   ends_without_record (world_of (Inr None) (Inr example_tx)) idle_engine (Inr None) \<and>
   ends_without_record (world_of (Inr (Some rebalance_unsure)) (Inr example_tx))
     idle_engine (Inr None)"
proof -
  have i: "\<not> isExecuting idle_engine" by (simp add: idle_engine_def)
  have 1: "ends_without_record
     ((world_of (Inr None) (Inr example_tx))\<lparr> analyzeMarketConditions := Inl (Error ''timeout'') \<rparr>)
     idle_engine (Inl (Error ''timeout''))"
    using evaluateAndExecute_no_record_before_submission [OF i,
        of "(world_of (Inr None) (Inr example_tx))\<lparr> analyzeMarketConditions := Inl (Error ''timeout'') \<rparr>"
           "Error ''timeout''"]
    by simp
  have 2: "ends_without_record
     ((world_of (Inr None) (Inr example_tx))\<lparr> config_vaultAddress := None \<rparr>)
     idle_engine (Inl (Error ''Vault address not configured''))"
    using evaluateAndExecute_no_record_before_submission [OF i,
        of "(world_of (Inr None) (Inr example_tx))\<lparr> config_vaultAddress := None \<rparr>"
           "Error ''Vault address not configured''" "''{}''"]
    by (simp add: world_of_def getCurrentPortfolio_def or_else_def truthy_def)
  have 3: "ends_without_record (world_of (Inl (Error ''rate limit'')) (Inr example_tx))
     idle_engine (Inl (Error ''rate limit''))"
    using evaluateAndExecute_no_record_before_submission [OF i,
        of "world_of (Inl (Error ''rate limit'')) (Inr example_tx)" "Error ''rate limit''"
           "''{}''" example_portfolio]
    by (simp add: world_of_fields world_of_portfolio world_of_oracle)
  have 4: "ends_without_record (world_of (Inr None) (Inr example_tx)) idle_engine (Inr None)"
    using evaluateAndExecute_no_record_before_submission [OF i,
        of "world_of (Inr None) (Inr example_tx)" _ "''{}''" example_portfolio]
    by (simp add: world_of_fields world_of_portfolio world_of_oracle)
  have 5: "ends_without_record (world_of (Inr (Some rebalance_unsure)) (Inr example_tx))
     idle_engine (Inr None)"
    using evaluateAndExecute_no_record_before_submission [OF i,
        of "world_of (Inr (Some rebalance_unsure)) (Inr example_tx)" _ "''{}''" example_portfolio
           rebalance_unsure]
      rebalance_unsure_rejected
    by (simp add: world_of_fields world_of_portfolio world_of_oracle)
  show ?thesis using i 1 2 3 4 5 by blast
qed

text \<open>
  C4. Every decision passes two checks before it is executed:
  \<^verbatim>\<open>validateRebalanceDecision\<close> in the oracle adapter, then \<^verbatim>\<open>validateDecision\<close>
  in the engine. For a decision whose action is rebalance or bridge, \<^verbatim>\<open>validateDecision\<close>
  returns false when the amount is a non-empty string that parses to a number below 100,
  and \<^verbatim>\<open>validateRebalanceDecision\<close> returns false when the source chain, the destination
  chain, the token or the amount is missing. In both cases the validation as a whole
  rejects the decision, and a cycle whose oracle proposes it returns null without a record.
\<close>

theorem rebalance_bridge_rejections:
  assumes "action d = Some ''rebalance'' \<or> action d = Some ''bridge''"
  shows
    "(\<forall>a. amount d = Some a \<and> a \<noteq> [] \<and> js_lt (parseFloat (js w) a) (Fin 100)
        \<longrightarrow> \<not> validateDecision (js w) d) \<and>
     (\<not> truthy (fromChain d) \<or> \<not> truthy (toChain d) \<or> \<not> truthy (token d)
        \<or> \<not> truthy (amount d)
        \<longrightarrow> \<not> validateRebalanceDecision d) \<and>
     ((\<exists>a. amount d = Some a \<and> a \<noteq> [] \<and> js_lt (parseFloat (js w) a) (Fin 100)) \<or>
      \<not> truthy (fromChain d) \<or> \<not> truthy (toChain d) \<or> \<not> truthy (token d)
        \<or> \<not> truthy (amount d)
        \<longrightarrow> \<not> (validateRebalanceDecision d \<and> validateDecision (js w) d) \<and>
           (\<not> isExecuting s \<and> analyzeMarketConditions w = Inr m \<and>
            fst (getCurrentPortfolio w) = Inr p \<and>
            completion w p m (getConstraints w) = Inr (Some d)
              \<longrightarrow> ends_without_record w s (Inr None)))"
proof -
  have small: "\<not> validateDecision (js w) d"
    if "amount d = Some a \<and> a \<noteq> [] \<and> js_lt (parseFloat (js w) a) (Fin 100)" for a
    using that by (auto simp: validateDecision_def)
  have missing: "\<not> validateRebalanceDecision d"
    if "\<not> truthy (fromChain d) \<or> \<not> truthy (toChain d) \<or> \<not> truthy (token d)
            \<or> \<not> truthy (amount d)"
    using that assms by (auto simp: validateRebalanceDecision_def split: option.splits)
  have dropped: "ends_without_record w s (Inr None)"
    if r: "\<not> (validateRebalanceDecision d \<and> validateDecision (js w) d)"
      and c: "\<not> isExecuting s" "analyzeMarketConditions w = Inr m"
        "fst (getCurrentPortfolio w) = Inr p"
        "completion w p m (getConstraints w) = Inr (Some d)"
    using r c
    by (cases "validateRebalanceDecision d")
       (auto simp: ends_without_record_def evaluateAndExecute_def cycle_def
          generateRebalanceDecision_def getStats_total split: prod.splits)
  show ?thesis using small missing dropped by blast
qed

theorem rebalance_bridge_rejections_witness:
  "action rebalance_small = Some ''rebalance'' \<and> amount rebalance_small = Some ''50'' \<and>
   js_lt (parseFloat example_js ''50'') (Fin 100) \<and>
   \<not> validateDecision example_js rebalance_small \<and>
   ends_without_record (world_of (Inr (Some rebalance_small)) (Inr example_tx)) idle_engine
     (Inr None) \<and>
   action rebalance_no_token = Some ''rebalance'' \<and> \<not> truthy (token rebalance_no_token) \<and>
   \<not> validateRebalanceDecision rebalance_no_token \<and>
   ends_without_record (world_of (Inr (Some rebalance_no_token)) (Inr example_tx)) idle_engine
     (Inr None)"
proof -
  have a1: "action rebalance_small = Some ''rebalance'' \<or> action rebalance_small = Some ''bridge''"
    by (simp add: rebalance_small_def rebalance_decision_def)
  have a2: "action rebalance_no_token = Some ''rebalance''
      \<or> action rebalance_no_token = Some ''bridge''"
    by (simp add: rebalance_no_token_def rebalance_decision_def)
  have am: "amount rebalance_small = Some ''50'' \<and> ''50'' \<noteq> []
      \<and> js_lt (parseFloat example_js ''50'') (Fin 100)"
    by (simp add: rebalance_small_def example_js_def parse_digits_50)
  have tk: "\<not> truthy (token rebalance_no_token)"
    by (simp add: rebalance_no_token_def truthy_def)
  have i: "\<not> isExecuting idle_engine" by (simp add: idle_engine_def)
  have f: "js (world_of answer submitted) = example_js \<and>
      analyzeMarketConditions (world_of answer submitted) = Inr ''{}'' \<and>
      fst (getCurrentPortfolio (world_of answer submitted)) = Inr example_portfolio \<and>
      completion (world_of answer submitted) example_portfolio ''{}''
        (getConstraints (world_of answer submitted)) = answer" for answer submitted
    by (simp add: world_of_fields world_of_portfolio) (simp add: world_of_def)
  note t1 = rebalance_bridge_rejections
    [OF a1, of "world_of (Inr (Some rebalance_small)) (Inr example_tx)" idle_engine "''{}''"
      example_portfolio]
  note t2 = rebalance_bridge_rejections
    [OF a2, of "world_of (Inr (Some rebalance_no_token)) (Inr example_tx)" idle_engine "''{}''"
      example_portfolio]
  have 1: "\<not> validateDecision example_js rebalance_small \<and>
     ends_without_record (world_of (Inr (Some rebalance_small)) (Inr example_tx)) idle_engine
       (Inr None)"
    using t1 am i f by (metis (no_types, lifting))
  have 2: "\<not> validateRebalanceDecision rebalance_no_token \<and>
     ends_without_record (world_of (Inr (Some rebalance_no_token)) (Inr example_tx)) idle_engine
       (Inr None)"
    using t2 tk i f by (metis (no_types, lifting))
  show ?thesis
    using 1 2 am tk by (simp add: rebalance_small_def rebalance_no_token_def rebalance_decision_def)
qed

text \<open>
  C5. Recording a decision in a ledger of 1000 records leaves 1000 records at once: the
  oldest is dropped, the others keep their order and the new record is last. The newest
  1000 in reverse order are then the new record followed by the others, and the dropped
  record is not among them when the identifiers are distinct.
\<close>

theorem recordDecision_evicts_oldest:
  assumes "length (decisionHistory s) = 1000"
  shows "decisionHistory (recordDecision s d m res)
       = tl (decisionHistory s) @ [newRecord d m res] \<and>
     length (decisionHistory (recordDecision s d m res)) = 1000 \<and>
     getDecisionHistory 1000 (recordDecision s d m res)
       = newRecord d m res # rev (tl (decisionHistory s)) \<and>
     (distinct (map rec_id (decisionHistory s)) \<and>
      decisionId res \<notin> rec_id ` set (decisionHistory s)
        \<longrightarrow> hd (decisionHistory s) \<notin> set (getDecisionHistory 1000 (recordDecision s d m res)))"
proof -
  obtain x xs where h: "decisionHistory s = x # xs"
    using assms by (cases "decisionHistory s") auto
  have a: "decisionHistory (recordDecision s d m res)
      = tl (decisionHistory s) @ [newRecord d m res]"
    using assms by (simp add: recordDecision_history h)
  have g: "getDecisionHistory 1000 (recordDecision s d m res)
       = newRecord d m res # rev (tl (decisionHistory s))"
    using assms slice_neg [of 1000 "decisionHistory (recordDecision s d m res)"]
    by (simp add: getDecisionHistory_def a)
  have n: "distinct (map rec_id (decisionHistory s)) \<and>
      decisionId res \<notin> rec_id ` set (decisionHistory s)
        \<longrightarrow> hd (decisionHistory s) \<notin> set (getDecisionHistory 1000 (recordDecision s d m res))"
    by (auto simp: g h newRecord_def)
  show ?thesis using a g n assms by simp
qed

theorem recordDecision_evicts_oldest_witness:
  "length (decisionHistory numbered_engine) = 1000 \<and>
   length (decisionHistory (recordDecision numbered_engine hold_decision ''{}'' new_result)) = 1000 \<and>
   numbered_record 0 \<notin> set (getDecisionHistory 1000
       (recordDecision numbered_engine hold_decision ''{}'' new_result))"
proof -
  note t = recordDecision_evicts_oldest [OF numbered_length, of hold_decision "''{}''" new_result]
  have l: "length (decisionHistory (recordDecision numbered_engine hold_decision ''{}'' new_result))
      = 1000"
    using t by blast
  have n: "hd (decisionHistory numbered_engine) \<notin> set (getDecisionHistory 1000
       (recordDecision numbered_engine hold_decision ''{}'' new_result))"
    using t numbered_distinct numbered_fresh by blast
  show ?thesis
    using numbered_length l n unfolding numbered_hd by blast
qed

text \<open>
  C6. \<^verbatim>\<open>getDecisionHistory(n)\<close> is to return the \<open>n\<close> newest records, newest first,
  for \<open>0 \<le> n\<close> below the size of the ledger. It does for \<open>1 \<le> n\<close>
  (\<open>getDecisionHistory_positive\<close>), and it only reads the ledger. At \<open>n = 0\<close> it
  does not: \<^verbatim>\<open>slice(-0)\<close> is \<^verbatim>\<open>slice(0)\<close>, the whole array, so a limit of 0
  returns every record where the claim has none.
\<close>

theorem getDecisionHistory_zero_returns_all:
  "getDecisionHistory 0
     \<lparr> decisionHistory = [numbered_record 1, numbered_record 2], isExecuting = False \<rparr>
     = [numbered_record 2, numbered_record 1]"
  by (simp add: getDecisionHistory_def slice_def)

text \<open>
  C7. Let \<open>res\<close> be the result of \<^verbatim>\<open>executeDecision\<close>. For a hold, \<open>res\<close> is a
  success with neither a transaction hash nor an error. For any other action exactly one of
  the two is present: the transaction hash and no error when \<open>res\<close> is a success, the
  error and no hash when it is a failure. A cycle that reaches execution returns \<open>res\<close>
  and appends its record to the ledger, for a hold too.
\<close>

theorem executeDecision_result_shape:
  assumes "res = fst (executeDecision w d m)"
  shows "(action d = Some ''hold'' \<longrightarrow>
            success res \<and> transactionHash res = None \<and> error res = None) \<and>
         (action d \<noteq> Some ''hold'' \<longrightarrow>
            (success res \<longrightarrow> transactionHash res \<noteq> None \<and> error res = None) \<and>
            (\<not> success res \<longrightarrow> transactionHash res = None \<and> error res \<noteq> None)) \<and>
         (\<not> isExecuting s \<and> analyzeMarketConditions w = Inr m \<and>
          getCurrentPortfolio w = (Inr p, cs) \<and>
          generateRebalanceDecision w p m (getConstraints w) = Inr (Some d) \<and>
          validateDecision (js w) d \<longrightarrow>
            fst (evaluateAndExecute w s) = Inr (Some res) \<and>
            decisionHistory (fst (snd (evaluateAndExecute w s)))
              = drop (Suc (length (decisionHistory s)) - 1000)
                  (decisionHistory s @ [newRecord d m res]) \<and>
            last (decisionHistory (fst (snd (evaluateAndExecute w s)))) = newRecord d m res)"
proof -
  have hold: "success res \<and> transactionHash res = None \<and> error res = None"
    if "action d = Some ''hold''"
    using that by (simp add: assms executeDecision_def)
  have other: "(success res \<longrightarrow> transactionHash res \<noteq> None \<and> error res = None) \<and>
            (\<not> success res \<longrightarrow> transactionHash res = None \<and> error res \<noteq> None)"
    if "action d \<noteq> Some ''hold''"
    using that
    by (auto simp: assms executeDecision_def failedResult_def Let_def executeAIDecision_success
        split: option.splits sum.splits)
  have recorded: "fst (evaluateAndExecute w s) = Inr (Some res) \<and>
            decisionHistory (fst (snd (evaluateAndExecute w s)))
              = drop (Suc (length (decisionHistory s)) - 1000)
                  (decisionHistory s @ [newRecord d m res]) \<and>
            last (decisionHistory (fst (snd (evaluateAndExecute w s)))) = newRecord d m res"
    if "\<not> isExecuting s" "analyzeMarketConditions w = Inr m" "getCurrentPortfolio w = (Inr p, cs)"
       "generateRebalanceDecision w p m (getConstraints w) = Inr (Some d)" "validateDecision (js w) d"
    using evaluateAndExecute_reaches_execution [OF that] assms
    by (simp add: recordDecision_last recordDecision_history)
  show ?thesis using hold other recorded by blast
qed

theorem executeDecision_result_shape_witness:
  "action hold_decision = Some ''hold'' \<and> \<not> isExecuting idle_engine \<and>
   held = fst (executeDecision hold_world hold_decision ''{}'') \<and>
   success held \<and> transactionHash held = None \<and> error held = None \<and>
   fst (evaluateAndExecute hold_world idle_engine) = Inr (Some held) \<and>
   decisionHistory (fst (snd (evaluateAndExecute hold_world idle_engine)))
     = [newRecord hold_decision ''{}'' held] \<and>
   action rebalance_decision \<noteq> Some ''hold'' \<and>
   fst (executeDecision (world_of (Inr (Some rebalance_decision)) (Inr example_tx))
          rebalance_decision ''{}'')
     = held\<lparr> transactionHash := Some ''0xabc'', gasUsed := Some (Fin 100) \<rparr> \<and>
   fst (executeDecision reverted_world rebalance_decision ''{}'')
     = held\<lparr> success := False, error := Some ''transaction execution reverted'' \<rparr>"
proof -
  have r: "held = fst (executeDecision hold_world hold_decision ''{}'')"
    by (simp add: executeDecision_def hold_decision_def hold_world_def world_of_fields held_def)
  have a: "analyzeMarketConditions hold_world = Inr ''{}''"
    by (simp add: hold_world_def world_of_fields)
  have p: "getCurrentPortfolio hold_world = (Inr example_portfolio, example_reads)"
    by (simp add: hold_world_def world_of_portfolio)
  have g: "generateRebalanceDecision hold_world example_portfolio ''{}''
      (getConstraints hold_world) = Inr (Some hold_decision)"
    using hold_decision_valid by (simp add: hold_world_def world_of_oracle)
  have v: "validateDecision (js hold_world) hold_decision"
    using hold_decision_valid by (simp add: hold_world_def world_of_fields)
  have i: "\<not> isExecuting idle_engine" by (simp add: idle_engine_def)
  have h: "action hold_decision = Some ''hold''" by (simp add: hold_decision_def)
  have n: "action rebalance_decision \<noteq> Some ''hold''" by (simp add: rebalance_decision_def)
  note t = executeDecision_result_shape [OF r, of idle_engine example_portfolio example_reads]
  have e: "fst (evaluateAndExecute hold_world idle_engine) = Inr (Some held)"
    using t a p g v i by blast
  have l: "decisionHistory (fst (snd (evaluateAndExecute hold_world idle_engine)))
     = [newRecord hold_decision ''{}'' held]"
    using t a p g v i by (simp add: idle_engine_def)
  have ea: "or_else (config_executorAddress (world_of answer submitted))
      (env_EXECUTOR_ADDRESS (world_of answer submitted)) = Some ''0xExecutor''"
    for answer and submitted :: "thrown + MinedTransaction"
    by (simp add: world_of_fields)
  have ne: "''0xExecutor'' \<noteq> []" by simp
  have call_ok: "executeAIDecision (world_of (Inr (Some rebalance_decision)) (Inr example_tx))
      ''0xExecutor''
      (getNetworkFromChain (js (world_of (Inr (Some rebalance_decision)) (Inr example_tx)))
         (or_default (fromChain rebalance_decision) ''ethereum''))
      (payload_of rebalance_decision)
      = Inr \<lparr> hash = ''0xabc'', tx_gasUsed = ''100'', gasPrice = ''50'', tx_success = True,
              blockNumber = 1 \<rparr>"
    by (simp add: world_of_fields rebalance_decision_network world_of_submission tx_wait_def
        example_tx_def)
  have ok: "fst (executeDecision (world_of (Inr (Some rebalance_decision)) (Inr example_tx))
          rebalance_decision ''{}'')
     = held\<lparr> transactionHash := Some ''0xabc'', gasUsed := Some (Fin 100) \<rparr>"
    using executeDecision_returns [OF n ea ne call_ok, of "''{}''"]
    by (simp add: world_of_fields held_def) (simp add: example_js_def parse_digits_100)
  have ea_rev: "or_else (config_executorAddress reverted_world)
      (env_EXECUTOR_ADDRESS reverted_world) = Some ''0xExecutor''"
    by (simp add: reverted_world_def world_of_fields)
  have call_bad: "executeAIDecision reverted_world ''0xExecutor''
      (getNetworkFromChain (js reverted_world)
         (or_default (fromChain rebalance_decision) ''ethereum''))
      (payload_of rebalance_decision)
      = Inl (Error ''transaction execution reverted'')"
    by (simp add: reverted_world_def world_of_fields rebalance_decision_network
        world_of_submission tx_wait_def example_tx_def)
  have bad: "fst (executeDecision reverted_world rebalance_decision ''{}'')
     = held\<lparr> success := False, error := Some ''transaction execution reverted'' \<rparr>"
    using executeDecision_throws [OF n ea_rev ne call_bad, of "''{}''"]
    by (simp add: reverted_world_def world_of_fields held_def failedResult_def)
  show ?thesis using t r h i e l n ok bad by blast
qed

text \<open>
  C8, as amended. When both gas prices are read, the reasons returned are those of the gas
  check for each chain, then that of the volatility check, then that of the concentration
  check (which never fails), and the gate passes exactly when there is none; three failing
  checks give three reasons. With no \<^verbatim>\<open>MAX_GAS_PRICE\<close> set the ceiling is the parsed
  \<^verbatim>\<open>'100'\<close>, and a chain reporting 150 then makes the gate fail with
  \<^verbatim>\<open>Gas price too high: 150 gwei\<close> among the reasons. When a gas price read throws,
  the gate fails with the single reason \<^verbatim>\<open>Risk check system error\<close>.
\<close>

theorem performRiskChecks_collects_reasons:
  assumes "gasLimit = parseFloat (m_js mo) (or_default (m_MAX_GAS_PRICE mo) ''100'')"
  shows
    "(getGasPrice mo ''ethereum'' = Inr g1 \<and> getGasPrice mo ''polygon'' = Inr g2 \<longrightarrow>
       snd (performRiskChecks mo)
         = gasReasons (m_js mo) gasLimit [g1, g2]
           @ volatilityReasons (checkMarketVolatility (m_js mo) (marketDataCache mo))
           @ concentrationReasons checkPortfolioConcentration \<and>
       fst (performRiskChecks mo) = (snd (performRiskChecks mo) = []) \<and>
       (js_gt g1 gasLimit \<and> js_gt g2 gasLimit \<and>
        \<not> fst (checkMarketVolatility (m_js mo) (marketDataCache mo))
          \<longrightarrow> length (snd (performRiskChecks mo)) = 3) \<and>
       (m_MAX_GAS_PRICE mo = None \<and> parseFloat (m_js mo) ''100'' = Fin 100 \<and>
        toString (m_js mo) (Fin 150) = ''150'' \<and> (g1 = Fin 150 \<or> g2 = Fin 150)
          \<longrightarrow> \<not> fst (performRiskChecks mo) \<and>
              ''Gas price too high: 150 gwei'' \<in> set (snd (performRiskChecks mo)))) \<and>
     (getGasPrice mo ''ethereum'' = Inl e \<or> getGasPrice mo ''polygon'' = Inl e \<longrightarrow>
       performRiskChecks mo = (False, [''Risk check system error'']))"
proof -
  have thrown: "performRiskChecks mo = (False, [''Risk check system error''])"
    if "getGasPrice mo ''ethereum'' = Inl e \<or> getGasPrice mo ''polygon'' = Inl e"
    using that by (auto simp: performRiskChecks_def Let_def split: sum.splits)
  have read: "snd (performRiskChecks mo)
         = gasReasons (m_js mo) gasLimit [g1, g2]
           @ volatilityReasons (checkMarketVolatility (m_js mo) (marketDataCache mo))
           @ concentrationReasons checkPortfolioConcentration \<and>
       fst (performRiskChecks mo) = (snd (performRiskChecks mo) = []) \<and>
       (js_gt g1 gasLimit \<and> js_gt g2 gasLimit \<and>
        \<not> fst (checkMarketVolatility (m_js mo) (marketDataCache mo))
          \<longrightarrow> length (snd (performRiskChecks mo)) = 3) \<and>
       (m_MAX_GAS_PRICE mo = None \<and> parseFloat (m_js mo) ''100'' = Fin 100 \<and>
        toString (m_js mo) (Fin 150) = ''150'' \<and> (g1 = Fin 150 \<or> g2 = Fin 150)
          \<longrightarrow> \<not> fst (performRiskChecks mo) \<and>
              ''Gas price too high: 150 gwei'' \<in> set (snd (performRiskChecks mo)))"
    if reads: "getGasPrice mo ''ethereum'' = Inr g1" "getGasPrice mo ''polygon'' = Inr g2"
  proof -
    have r: "performRiskChecks mo =
      (gasReasons (m_js mo) gasLimit [g1, g2]
         @ volatilityReasons (checkMarketVolatility (m_js mo) (marketDataCache mo))
         @ concentrationReasons checkPortfolioConcentration = [],
       gasReasons (m_js mo) gasLimit [g1, g2]
         @ volatilityReasons (checkMarketVolatility (m_js mo) (marketDataCache mo))
         @ concentrationReasons checkPortfolioConcentration)"
      using reads assms by (simp add: performRiskChecks_def Let_def)
    have three: "length (snd (performRiskChecks mo)) = 3"
      if "js_gt g1 gasLimit \<and> js_gt g2 gasLimit \<and>
        \<not> fst (checkMarketVolatility (m_js mo) (marketDataCache mo))"
      using that
      by (simp add: r gasReasons_def volatilityReasons_def concentrationReasons_def
          checkPortfolioConcentration_def)
    have high: "\<not> fst (performRiskChecks mo) \<and>
              ''Gas price too high: 150 gwei'' \<in> set (snd (performRiskChecks mo))"
      if "m_MAX_GAS_PRICE mo = None \<and> parseFloat (m_js mo) ''100'' = Fin 100 \<and>
        toString (m_js mo) (Fin 150) = ''150'' \<and> (g1 = Fin 150 \<or> g2 = Fin 150)"
    proof -
      have l: "gasLimit = Fin 100"
        using that assms by (simp add: or_default_def)
      have "''Gas price too high: 150 gwei'' \<in> set (gasReasons (m_js mo) gasLimit [g1, g2])"
        using that by (auto simp: l gasReasons_def js_gt_def)
      then show ?thesis by (auto simp: r)
    qed
    show ?thesis using r three high by simp
  qed
  show ?thesis using thrown read by blast
qed

theorem performRiskChecks_collects_reasons_witness:
  "getGasPrice (example_monitor (Inr (Fin 150)) (Inr (Fin 50)) []) ''ethereum'' = Inr (Fin 150) \<and>
   getGasPrice (example_monitor (Inr (Fin 150)) (Inr (Fin 50)) []) ''polygon'' = Inr (Fin 50) \<and>
   performRiskChecks (example_monitor (Inr (Fin 150)) (Inr (Fin 50)) []) =
     (False, [''Gas price too high: 150 gwei'']) \<and>
   performRiskChecks (example_monitor (Inr (Fin 150)) (Inr (Fin 150)) volatile_cache) =
     (False, [''Gas price too high: 150 gwei'', ''Gas price too high: 150 gwei'',
       ''High market volatility detected: WETH on ethereum has high volatility: 50.00%'']) \<and>
   getGasPrice (example_monitor (Inr (Fin 50)) (Inl (Error ''timeout'')) []) ''polygon''
     = Inl (Error ''timeout'') \<and>
   performRiskChecks (example_monitor (Inr (Fin 50)) (Inl (Error ''timeout'')) []) =
     (False, [''Risk check system error''])"
proof -
  have e: "getGasPrice (example_monitor g1 g2 c) ''ethereum'' = g1" for g1 g2 c
    by (simp add: example_monitor_def)
  have q: "getGasPrice (example_monitor g1 g2 c) ''polygon'' = g2" for g1 g2 c
    by (simp add: example_monitor_def)
  have c: "marketDataCache (example_monitor g1 g2 c) = c" for g1 g2 c
    by (simp add: example_monitor_def)
  have l: "Fin 100 = parseFloat (m_js (example_monitor g1 g2 c))
      (or_default (m_MAX_GAS_PRICE (example_monitor g1 g2 c)) ''100'')" for g1 g2 c
    by (simp add: example_monitor_def example_js_def or_default_def parse_digits_100)
  have s: "toString (m_js (example_monitor g1 g2 c)) (Fin 150) = ''150''" for g1 g2 c
    by (simp add: example_monitor_def example_js_def print_number_def)
  have v: "checkMarketVolatility (m_js (example_monitor g1 g2 c)) volatile_cache
      = (False, Some ''WETH on ethereum has high volatility: 50.00%'')" for g1 g2 c
    by (simp add: volatile_cache_def example_monitor_def example_js_def print_fixed_def
        maxVolatility_def js_gt_def)
  note t1 = performRiskChecks_collects_reasons
    [OF l, of "Inr (Fin 150)" "Inr (Fin 50)" "[]" "Fin 150" "Fin 50"]
  note t2 = performRiskChecks_collects_reasons
    [OF l, of "Inr (Fin 150)" "Inr (Fin 150)" volatile_cache "Fin 150" "Fin 150"]
  note t3 = performRiskChecks_collects_reasons
    [OF l, of "Inr (Fin 50)" "Inl (Error ''timeout'')" "[]" _ _ "Error ''timeout''"]
  have 1: "performRiskChecks (example_monitor (Inr (Fin 150)) (Inr (Fin 50)) []) =
     (False, [''Gas price too high: 150 gwei''])"
    using t1
    by (simp add: prod_eq_iff gasReasons_def volatilityReasons_def concentrationReasons_def
        checkPortfolioConcentration_def js_gt_def s c e q)
  have 2: "performRiskChecks (example_monitor (Inr (Fin 150)) (Inr (Fin 150)) volatile_cache) =
     (False, [''Gas price too high: 150 gwei'', ''Gas price too high: 150 gwei'',
       ''High market volatility detected: WETH on ethereum has high volatility: 50.00%''])"
    using t2
    by (simp add: prod_eq_iff gasReasons_def volatilityReasons_def concentrationReasons_def
        checkPortfolioConcentration_def js_gt_def print_reason_def s c v e q)
  have 3: "performRiskChecks (example_monitor (Inr (Fin 50)) (Inl (Error ''timeout'')) []) =
     (False, [''Risk check system error''])"
    using t3 by (simp add: e q)
  show ?thesis using 1 2 3 by (simp add: e q)
qed

text \<open>
  C8 as stated fails when the other read throws: one chain reports 150, and the only
  reason returned is the system error.
\<close>

theorem performRiskChecks_read_error_counterexample:
  "getGasPrice (example_monitor (Inr (Fin 150)) (Inl (Error ''timeout'')) []) ''ethereum''
     = Inr (Fin 150) \<and>
   performRiskChecks (example_monitor (Inr (Fin 150)) (Inl (Error ''timeout'')) []) =
     (False, [''Risk check system error''])"
  by (simp add: performRiskChecks_def example_monitor_def)

text \<open>
  C9. Whatever the action and the confidence, a decision whose amount is a non-empty string
  that parses to a number below 100 is rejected by \<^verbatim>\<open>validateDecision\<close>.
\<close>

theorem validateDecision_min_amount_any_action:
  assumes "amount d = Some a" "a \<noteq> []" "js_lt (parseFloat b a) (Fin 100)"
  shows "\<not> validateDecision b d"
  using assms by (simp add: validateDecision_def)

theorem validateDecision_min_amount_any_action_witness:
  "action hold_small = Some ''hold'' \<and> confidence hold_small = Some (Fin 0.9) \<and>
   amount hold_small = Some ''50'' \<and> js_lt (parseFloat example_js ''50'') (Fin 100) \<and>
   \<not> validateDecision example_js hold_small"
  using validateDecision_min_amount_any_action [of hold_small "''50''" example_js]
  by (simp add: hold_small_def hold_decision_def example_js_def parse_digits_50)

text \<open>
  C10. On an empty ledger \<^verbatim>\<open>getStats\<close> answers with a total of 0, no success, a
  success rate of 0 and no action count. The rate is not NaN because the division is
  guarded: the quotient \<^verbatim>\<open>0 / 0\<close> that the guard skips is NaN and would stay NaN through
  the rounding (\<open>unguarded_rate_is_NaN\<close>). The runtime is taken to round 0 to 0.
\<close>

theorem getStats_empty:
  assumes "nearest b 0 = Fin 0"
  shows "getStats b (s\<lparr> decisionHistory := [] \<rparr>) =
     \<lparr> totalDecisions = 0, successfulDecisions = 0, successRate = Fin 0,
       actionCounts = Map.empty, stats_isExecuting = isExecuting s \<rparr> \<and>
     successRate (getStats b (s\<lparr> decisionHistory := [] \<rparr>)) \<noteq> NaN"
  using assms by (simp add: getStats_def)

theorem getStats_empty_witness:
  "nearest example_js 0 = Fin 0 \<and>
   getStats example_js idle_engine =
     \<lparr> totalDecisions = 0, successfulDecisions = 0, successRate = Fin 0,
       actionCounts = Map.empty, stats_isExecuting = False \<rparr>"
  using getStats_empty [of example_js idle_engine]
  by (simp add: example_js_def idle_engine_def)

end
